theory Spec2Isabelle
  imports Complex_Main
begin

section \<open>Python values, exceptions and the session store\<close>

text \<open>
  The dashboard is one Python module, \<^verbatim>\<open>src/main.py\<close>. Its functions read and write the
  Streamlit session store, call the JWT library, two HTTP providers and the clock, and
  write widgets to the page. Here each function takes the store as an argument and returns
  the updated store; every raise is a value \<open>Inl x\<close> of the result; the libraries and the
  providers are fields of an environment record; Python floats are real numbers.
\<close>

datatype exc =
  KeyError | AttributeError | TypeError | ValueError | IndexError | ClientError
  | DecodeError | InvalidSignatureError | ExpiredSignatureError

datatype pyval = PNone | PBool bool | PStr string

text \<open>Python truthiness of the values the session store holds.\<close>

fun truthy :: "pyval \<Rightarrow> bool" where
  "truthy PNone = False"
| "truthy (PBool b) = b"
| "truthy (PStr s) = (s \<noteq> [])"

text \<open>\<^verbatim>\<open>st.session_state\<close>: a dictionary with attribute access.\<close>

type_synonym session_state = "string \<rightharpoonup> pyval"

text \<open>Reading \<^verbatim>\<open>st.session_state.k\<close> raises AttributeError when the key is absent.\<close>

definition getattr :: "session_state \<Rightarrow> string \<Rightarrow> exc + pyval" where
  "getattr st k = (case st k of None \<Rightarrow> Inl AttributeError | Some v \<Rightarrow> Inr v)"

text \<open>Truthiness of an attribute, an absent one counting as false.\<close>

definition flag :: "session_state \<Rightarrow> string \<Rightarrow> bool" where
  "flag st k = (case st k of None \<Rightarrow> False | Some v \<Rightarrow> truthy v)"

text \<open>Sequencing of statements that may raise.\<close>

definition bnd :: "exc + 'a \<Rightarrow> ('a \<Rightarrow> exc + 'b) \<Rightarrow> exc + 'b" where
  "bnd r f = (case r of Inl x \<Rightarrow> Inl x | Inr v \<Rightarrow> f v)"

text \<open>What the page shows besides the coin panels.\<close>

datatype ui = Success string | Error string | Warning string | Balloons

section \<open>The environment\<close>

text \<open>
  A value of a decoded token's payload: a JSON number (true and false count as 1 and 0,
  as Python has them), a JSON string, or anything else (null, an array, an object).
\<close>

datatype jval = JNum real | JStr string | JOther

type_synonym claims = "string \<rightharpoonup> jval"

text \<open>A risk curve as the data frame holds it: rows (Price, USD Risk), indexed from 0.\<close>

type_synonym dataframe = "(real \<times> real) list"

text \<open>
  What one GET to the risk provider gives: the request or the JSON parse raises, or there
  is a JSON object, without a \<^verbatim>\<open>data\<close> key (\<open>Body None\<close>) or with one, whose value maps
  currency names to rows of (price, raw risk).
\<close>

datatype response = Fails exc | Body "(string \<times> (real \<times> real) list) list option"

text \<open>The price provider's JSON: coin id to quote, a quote mapping field names to numbers.\<close>

type_synonym api_data = "(string \<times> (string \<times> real) list) list"

record env =
  secrets :: "string \<rightharpoonup> string"
  jwt_parse :: "string \<Rightarrow> (string \<times> string \<times> claims) option"
  hmac :: "string \<Rightarrow> string \<Rightarrow> string"
  other_claims :: "claims \<Rightarrow> exc option"
  str_int :: "string \<Rightarrow> int option"
  jwt_encode :: "claims \<Rightarrow> string \<Rightarrow> string"
  clock :: real
  risk_get :: "string \<Rightarrow> response"
  price_get :: "exc + api_data"
  coins :: "(string \<times> string) list"

text \<open>
  \<open>secrets\<close> is \<^verbatim>\<open>st.secrets\<close>. The next four fields are what the JWT library
  computes inside \<^verbatim>\<open>jwt.decode\<close>: \<open>jwt_parse tok\<close> splits a compact HS256 token into
  the signed text, the signature and the JSON payload (None when the token is malformed);
  \<open>hmac key text\<close> is the HMAC-SHA-256 signature of \<open>text\<close> under \<open>key\<close>;
  \<open>other_claims payload\<close> is the library's check of the registered claims besides
  \<^verbatim>\<open>exp\<close> (the exception it raises, if any); \<open>str_int s\<close> is Python's \<^verbatim>\<open>int(s)\<close> on a
  string (None when it raises ValueError). \<open>jwt_encode\<close> is \<^verbatim>\<open>jwt.encode(payload, key, algorithm="HS256")\<close>; \<open>clock\<close> is
  \<^verbatim>\<open>time.time()\<close>; \<open>risk_get url\<close> is the GET of \<open>url\<close> with the bearer header;
  \<open>price_get\<close> is the batched price request; \<open>coins\<close> is the catalog of
  \<^verbatim>\<open>src/coins.json\<close> as (id, name) pairs.
\<close>

section \<open>Token codec\<close>

text \<open>\<^verbatim>\<open>int(x)\<close> on a float truncates towards zero.\<close>

definition py_int :: "real \<Rightarrow> int" where
  "py_int x = (if 0 \<le> x then \<lfloor>x\<rfloor> else \<lceil>x\<rceil>)"

text \<open>\<^verbatim>\<open>v >= n\<close> for a payload value and an int: only numbers compare.\<close>

fun ge_int :: "jval \<Rightarrow> int \<Rightarrow> exc + bool" where
  "ge_int (JNum x) n = Inr (real_of_int n \<le> x)"
| "ge_int (JStr s) n = Inl TypeError"
| "ge_int JOther n = Inl TypeError"

text \<open>
  The library's own expiry check, which \<^verbatim>\<open>jwt.decode\<close> runs by default when the
  payload has an \<^verbatim>\<open>exp\<close>: the value is converted with \<^verbatim>\<open>int\<close> (a ValueError becomes
  DecodeError, a TypeError is not caught), and the token is rejected when the result is at
  or before the current time, a float.
\<close>

definition expired :: "env \<Rightarrow> int \<Rightarrow> exc + unit" where
  "expired e n = (if real_of_int n \<le> clock e then Inl ExpiredSignatureError else Inr ())"

fun validate_exp :: "env \<Rightarrow> jval \<Rightarrow> exc + unit" where
  "validate_exp e (JNum x) = expired e (py_int x)"
| "validate_exp e (JStr s) =
     (case str_int e s of None \<Rightarrow> Inl DecodeError | Some n \<Rightarrow> expired e n)"
| "validate_exp e JOther = Inl TypeError"

text \<open>
  \<^verbatim>\<open>jwt.decode(tok, key, algorithms=["HS256"])\<close> as line 55 calls it, with the
  library's default options: parse the token, compare its signature with the HMAC of the
  signed text under the key, check the registered claims, and return the payload.
\<close>

definition jwt_decode :: "env \<Rightarrow> string \<Rightarrow> string \<Rightarrow> exc + claims" where
  "jwt_decode e tok key =
     (case jwt_parse e tok of
        None \<Rightarrow> Inl DecodeError
      | Some (signed, signature, payload) \<Rightarrow>
          if hmac e key signed \<noteq> signature then Inl InvalidSignatureError
          else
            (case other_claims e payload of
               Some x \<Rightarrow> Inl x
             | None \<Rightarrow>
                (case payload ''exp'' of
                   None \<Rightarrow> Inr payload
                 | Some v \<Rightarrow> bnd (validate_exp e v) (\<lambda>_. Inr payload))))"

text \<open>The JWT library decodes strings only.\<close>

fun decode_token :: "env \<Rightarrow> pyval \<Rightarrow> string \<Rightarrow> exc + claims" where
  "decode_token e (PStr s) key = jwt_decode e s key"
| "decode_token e v key = Inl DecodeError"

text \<open>
  The \<^verbatim>\<open>try\<close> block of \<^verbatim>\<open>check_user_access\<close> (lines 55 to 62): \<open>Inr (st, True)\<close> is
  \<^verbatim>\<open>return True\<close>; \<open>Inr (st', False)\<close> is falling out of the block after the token was
  set to None.
\<close>

definition check_try :: "env \<Rightarrow> session_state \<Rightarrow> exc + (session_state \<times> bool)" where
  "check_try e st =
     bnd (getattr st ''user_access_token'') (\<lambda>tok.
     bnd (case secrets e ''SECRET_KEY'' of None \<Rightarrow> Inl KeyError | Some k \<Rightarrow> Inr k) (\<lambda>key.
     bnd (decode_token e tok key) (\<lambda>encoded_jwt.
     bnd (case encoded_jwt ''exp'' of None \<Rightarrow> Inl KeyError | Some v \<Rightarrow> Inr v) (\<lambda>ex.
     bnd (ge_int ex (py_int (clock e))) (\<lambda>ok.
       if ok then Inr (st, True)
       else Inr (st(''user_access_token'' \<mapsto> PNone), False))))))"

text \<open>
  \<^verbatim>\<open>check_user_access\<close>: \<^verbatim>\<open>except Exception: pass\<close>, then \<^verbatim>\<open>return False\<close>. Nothing in
  the block changes the store before a raise, so the store is unchanged on that path.
\<close>

definition check_user_access :: "env \<Rightarrow> session_state \<Rightarrow> exc + (session_state \<times> bool)" where
  "check_user_access e st =
     (case check_try e st of
        Inl x \<Rightarrow> Inr (st, False)
      | Inr (st', ok) \<Rightarrow> Inr (st', ok))"



section \<open>Session state machine\<close>

text \<open>
  \<^verbatim>\<open>user_message\<close>: the \<^verbatim>\<open>if\<close>/\<^verbatim>\<open>elif\<close> chain of lines 77 to 85, with the
  short-circuit order of \<^verbatim>\<open>and\<close>. It returns what it writes to the page.
\<close>

definition user_message :: "session_state \<Rightarrow> exc + ui list" where
  "user_message st =
     bnd (getattr st ''authenticated'') (\<lambda>a.
     bnd (if truthy a then bnd (getattr st ''callback'') (\<lambda>c. Inr (truthy c))
          else Inr False) (\<lambda>both.
     if both then Inr [Success ''Successfully Authenticated'', Balloons]
     else if truthy a then Inr []
     else
       bnd (getattr st ''user_access_token'') (\<lambda>t.
       bnd (if truthy t then bnd (getattr st ''callback'') (\<lambda>c. Inr (\<not> truthy c))
            else Inr False) (\<lambda>invalid.
       if invalid then Inr [Error ''Invalid Token'']
       else
         bnd (getattr st ''callback'') (\<lambda>c.
         if \<not> truthy c then Inr [Warning ''Please Authenticate''] else Inr [])))))"

text \<open>\<^verbatim>\<open>if k not in st.session_state: st.session_state.k = v\<close>.\<close>

definition set_default :: "session_state \<Rightarrow> string \<Rightarrow> pyval \<Rightarrow> session_state" where
  "set_default st k v = (if st k = None then st(k \<mapsto> v) else st)"

definition defaults :: "session_state \<Rightarrow> session_state" where
  "defaults st =
     set_default
       (set_default
          (set_default
             (set_default st ''user_access_token'' PNone)
             ''authenticated'' (PBool False))
          ''button_pressed'' (PBool False))
       ''callback'' (PBool False)"

text \<open>
  The condition of lines 100 to 102:
  \<^verbatim>\<open>(token and not authenticated) or (token and button_pressed)\<close>.
\<close>

definition needs_check :: "session_state \<Rightarrow> exc + bool" where
  "needs_check st =
     bnd (getattr st ''user_access_token'') (\<lambda>t.
     bnd (if truthy t then bnd (getattr st ''authenticated'') (\<lambda>a. Inr (\<not> truthy a))
          else Inr False) (\<lambda>left.
     if left then Inr True
     else
       bnd (getattr st ''user_access_token'') (\<lambda>t'.
       if truthy t' then bnd (getattr st ''button_pressed'') (\<lambda>b. Inr (truthy b))
       else Inr False)))"

text \<open>
  \<^verbatim>\<open>update_state\<close>, called with keyword arguments \<open>kwargs\<close>. The result is the store, what was written to the page, and
  how many times \<^verbatim>\<open>check_user_access\<close> was called.
\<close>

definition update_state ::
  "env \<Rightarrow> session_state \<Rightarrow> session_state \<Rightarrow> exc + (session_state \<times> ui list \<times> nat)" where
  "update_state e kwargs st =
     (let st1 = defaults (st ++ kwargs) in
      bnd (needs_check st1) (\<lambda>c.
      bnd (if c
           then bnd (check_user_access e st1) (\<lambda>(st', ok).
                  Inr (st'(''authenticated'' \<mapsto> PBool ok), 1))
           else Inr (st1, 0)) (\<lambda>(st2, n).
      bnd (getattr st2 ''button_pressed'') (\<lambda>b.
      bnd (if truthy b then user_message st2 else Inr []) (\<lambda>msgs.
        Inr (st2(''button_pressed'' \<mapsto> PBool False, ''callback'' \<mapsto> PBool False),
             msgs, n))))))"

text \<open>The \<^verbatim>\<open>on_click\<close> callback of the Authenticate button (lines 159 to 161).\<close>

definition on_click ::
  "env \<Rightarrow> string \<Rightarrow> session_state \<Rightarrow> exc + (session_state \<times> ui list \<times> nat)" where
  "on_click e user_access_token st =
     update_state e
       [''user_access_token'' \<mapsto> PStr user_access_token,
        ''button_pressed'' \<mapsto> PBool True,
        ''callback'' \<mapsto> PBool True] st"

section \<open>Risk data client\<close>

text \<open>\<^verbatim>\<open>d[k]\<close> on a dictionary raises KeyError when the key is absent.\<close>

definition getitem :: "(string \<times> 'a) list \<Rightarrow> string \<Rightarrow> exc + 'a" where
  "getitem d k = (case map_of d k of None \<Rightarrow> Inl KeyError | Some v \<Rightarrow> Inr v)"

text \<open>
  \<^verbatim>\<open>get_risk(session, url)\<close>: None (\<open>Inr None\<close>) when the JSON has no \<^verbatim>\<open>data\<close> key,
  else the frame of \<^verbatim>\<open>data["data"]["USD"]\<close> with the second column multiplied by 100.
\<close>

definition get_risk :: "env \<Rightarrow> string \<Rightarrow> exc + dataframe option" where
  "get_risk e url =
     (case risk_get e url of
        Fails x \<Rightarrow> Inl x
      | Body None \<Rightarrow> Inr None
      | Body (Some d) \<Rightarrow>
          bnd (getitem d ''USD'') (\<lambda>rows.
            Inr (Some (map (\<lambda>(price, risk). (price, risk * 100)) rows))))"

text \<open>
  \<^verbatim>\<open>asyncio.gather\<close> on the tasks, without \<^verbatim>\<open>return_exceptions\<close>: the results in task order,
  or the exception of a task that raised. Which one, when several raise, depends on
  timing; the caller below treats all exceptions alike, and the first in task order stands
  for it here.
\<close>

fun gather :: "(exc + 'a) list \<Rightarrow> exc + 'a list" where
  "gather [] = Inr []"
| "gather (Inl x # ts) = Inl x"
| "gather (Inr v # ts) = bnd (gather ts) (\<lambda>vs. Inr (v # vs))"

text \<open>
  \<^verbatim>\<open>get_metrics(names)\<close>: the whole body is inside \<^verbatim>\<open>try\<close>, and
  \<^verbatim>\<open>except Exception\<close> returns the empty list. The first component is the list of URLs
  requested, the second the returned list.
\<close>

definition get_metrics :: "env \<Rightarrow> string list \<Rightarrow> string list \<times> dataframe option list" where
  "get_metrics e names =
     (case secrets e ''TOKEN'' of
        None \<Rightarrow> ([], [])
      | Some token \<Rightarrow>
         (case secrets e ''URL'' of
            None \<Rightarrow> ([], [])
          | Some base_url \<Rightarrow>
             (let urls = map (\<lambda>name. base_url @ name) names in
              (urls,
               case gather (map (get_risk e) urls) of
                 Inl x \<Rightarrow> []
               | Inr charts \<Rightarrow> charts))))"

section \<open>Aggregator and render cycle\<close>

datatype risk_view = Risk_Shown real dataframe | No_Chart_Data | Nothing

record display_record =
  asset_id :: string
  asset_name :: string
  usd :: real
  change_24h :: real
  matched :: risk_view

text \<open>\<^verbatim>\<open>max\<close> of a list raises ValueError on the empty list.\<close>

fun py_max :: "nat list \<Rightarrow> exc + nat" where
  "py_max [] = Inl ValueError"
| "py_max (x # xs) = Inr (fold max xs x)"

text \<open>
  \<^verbatim>\<open>max(df.index[df["Price"] <= price].tolist())\<close> (lines 137 to 139): the index labels
  are the row positions.
\<close>

definition match_index :: "dataframe \<Rightarrow> real \<Rightarrow> exc + nat" where
  "match_index df price = py_max (filter (\<lambda>i. fst (df ! i) \<le> price) [0..<length df])"

text \<open>\<^verbatim>\<open>xs[i]\<close> on a list raises IndexError out of range.\<close>

definition index :: "'a list \<Rightarrow> nat \<Rightarrow> exc + 'a" where
  "index xs i = (if i < length xs then Inr (xs ! i) else Inl IndexError)"

text \<open>
  One pass of the loop body of lines 125 to 154, for the coin at position \<open>i\<close>:
  \<open>Inr None\<close> is \<^verbatim>\<open>continue\<close>, \<open>Inr (Some d)\<close> is the panel written, \<open>Inl x\<close> a raise
  that leaves the loop and \<^verbatim>\<open>main\<close>. The name is handed to the page as stored.
\<close>

definition render_coin ::
  "api_data \<Rightarrow> dataframe option list \<Rightarrow> session_state \<Rightarrow> nat \<times> string \<times> string
     \<Rightarrow> exc + display_record option" where
  "render_coin api charts st ic =
     (case ic of (i, coin, name) \<Rightarrow>
      bnd (getitem api coin) (\<lambda>quote.
      if quote = [] then Inr None
      else
        bnd (getitem quote ''usd'') (\<lambda>price.
        bnd (getitem quote ''usd_24h_change'') (\<lambda>change.
        let panel = (\<lambda>m. \<lparr>asset_id = coin, asset_name = name, usd = price,
                           change_24h = change, matched = m\<rparr>) in
        bnd (if charts \<noteq> []
             then bnd (index charts i) (\<lambda>c.
                    if c \<noteq> None
                    then bnd (getattr st ''authenticated'') (\<lambda>a. Inr (truthy a))
                    else Inr False)
             else Inr False) (\<lambda>has_chart.
        if has_chart then
          bnd (index charts i) (\<lambda>c.
          case c of
            None \<Rightarrow> Inl TypeError
          | Some df \<Rightarrow>
              bnd (match_index df price) (\<lambda>k.
                Inr (Some (panel (Risk_Shown (snd (df ! k)) df)))))
        else
          bnd (if charts \<noteq> []
               then bnd (index charts i) (\<lambda>c.
                      if c = None
                      then bnd (getattr st ''authenticated'') (\<lambda>a. Inr (truthy a))
                      else Inr False)
               else Inr False) (\<lambda>no_chart.
          if no_chart then Inr (Some (panel No_Chart_Data))
          else Inr (Some (panel Nothing))))))))"

fun render_coins ::
  "api_data \<Rightarrow> dataframe option list \<Rightarrow> session_state \<Rightarrow> (nat \<times> string \<times> string) list
     \<Rightarrow> exc + display_record list" where
  "render_coins api charts st [] = Inr []"
| "render_coins api charts st (ic # ics) =
     bnd (render_coin api charts st ic) (\<lambda>r.
     bnd (render_coins api charts st ics) (\<lambda>rs.
       Inr (case r of None \<Rightarrow> rs | Some d \<Rightarrow> d # rs)))"

record render =
  final_state :: session_state
  messages :: "ui list"
  validations :: nat
  risk_requests :: "string list"
  records :: "display_record list"

text \<open>Line 118: the risk client is called only when the session is authenticated.\<close>

definition fetch_charts ::
  "env \<Rightarrow> session_state \<Rightarrow> string list \<Rightarrow> exc + (string list \<times> dataframe option list)" where
  "fetch_charts e st ids =
     bnd (getattr st ''authenticated'') (\<lambda>a.
       if truthy a then Inr (get_metrics e ids) else Inr ([], []))"

text \<open>
  \<^verbatim>\<open>main()\<close>, one run of the script: \<open>clicked\<close> is what \<^verbatim>\<open>st.button\<close> returns in this
  run. The click callback itself runs before the script, as \<open>on_click\<close>.
\<close>

definition main :: "env \<Rightarrow> bool \<Rightarrow> session_state \<Rightarrow> exc + render" where
  "main e clicked st =
     bnd (update_state e Map.empty st) (\<lambda>(st1, m1, n1).
     let ids = map fst (coins e) in
     bnd (fetch_charts e st1 ids) (\<lambda>(reqs, charts).
     bnd (price_get e) (\<lambda>api.
     bnd (render_coins api charts st1 (enumerate 0 (coins e))) (\<lambda>recs.
     let st2 = st1(''button_pressed'' \<mapsto> PBool clicked) in
     bnd (update_state e Map.empty st2) (\<lambda>(st3, m2, n2).
       Inr \<lparr>final_state = st3, messages = m1 @ m2, validations = n1 + n2,
            risk_requests = reqs, records = recs\<rparr>)))))"

section \<open>An example deployment\<close>

text \<open>
  A catalog of two coins, the secrets all set, and a clock at 1000.5. Signatures are the
  key followed by the signed text. Four tokens parse: \<open>''good''\<close> (signed under
  \<open>''k''\<close>, expiring at 2000), \<open>''old''\<close> (signed, expired at 100), \<open>''edge''\<close> (signed,
  expiring at 1000, the current whole second) and \<open>''forged''\<close> (expiring at 2000, with a
  signature that is not the key's). The risk provider has a curve for bitcoin, an answer
  without \<^verbatim>\<open>data\<close> for ethereum, and fails for any other address.
\<close>

definition demo_secrets :: "string \<rightharpoonup> string" where
  "demo_secrets = [''TOKEN'' \<mapsto> ''b'', ''URL'' \<mapsto> ''r/'', ''SECRET_KEY'' \<mapsto> ''k'']"

definition demo_parse :: "string \<Rightarrow> (string \<times> string \<times> claims) option" where
  "demo_parse tok =
     (if tok = ''good'' then Some (''g'', ''kg'', [''exp'' \<mapsto> JNum 2000])
      else if tok = ''old'' then Some (''o'', ''ko'', [''exp'' \<mapsto> JNum 100])
      else if tok = ''edge'' then Some (''e'', ''ke'', [''exp'' \<mapsto> JNum 1000])
      else if tok = ''forged'' then Some (''g'', ''xg'', [''exp'' \<mapsto> JNum 2000])
      else None)"

definition demo_risk :: "string \<Rightarrow> response" where
  "demo_risk url =
     (if url = ''r/bitcoin'' then Body (Some [(''USD'', [(40000, 0.1), (60000, 0.3)])])
      else if url = ''r/ethereum'' then Body None
      else Fails ClientError)"

definition demo_prices :: api_data where
  "demo_prices =
     [(''bitcoin'', [(''usd'', 50000), (''usd_24h_change'', 2.1)]),
      (''ethereum'', [(''usd'', 3000), (''usd_24h_change'', -1)])]"

definition demo_env :: env where
  "demo_env =
     \<lparr>secrets = demo_secrets, jwt_parse = demo_parse,
      hmac = (\<lambda>key text. key @ text), other_claims = (\<lambda>payload. None),
      str_int = (\<lambda>s. None),
      jwt_encode = (\<lambda>payload key. key @ ''.jwt''), clock = 1000.5,
      risk_get = demo_risk, price_get = Inr demo_prices,
      coins = [(''bitcoin'', ''bitcoin''), (''ethereum'', ''ethereum'')]\<rparr>"

section \<open>Predicates used in the statements\<close>

text \<open>All four attributes that \<^verbatim>\<open>update_state\<close> installs are set.\<close>

definition present :: "session_state \<Rightarrow> bool" where
  "present st \<longleftrightarrow>
     st ''user_access_token'' \<noteq> None \<and> st ''authenticated'' \<noteq> None
     \<and> st ''button_pressed'' \<noteq> None \<and> st ''callback'' \<noteq> None"

text \<open>
  The stored token is a string that the library decodes under the configured key, and the
  payload's \<^verbatim>\<open>exp\<close> is a number at or after the clock's whole second.
\<close>

definition accepts :: "env \<Rightarrow> session_state \<Rightarrow> bool" where
  "accepts e st \<longleftrightarrow>
     (\<exists>tok key payload x.
         st ''user_access_token'' = Some (PStr tok)
       \<and> secrets e ''SECRET_KEY'' = Some key
       \<and> jwt_decode e tok key = Inr payload
       \<and> payload ''exp'' = Some (JNum x)
       \<and> real_of_int (py_int (clock e)) \<le> x)"

text \<open>The same, with \<^verbatim>\<open>exp\<close> before the clock's whole second: line 62 is reached.\<close>

definition clears :: "env \<Rightarrow> session_state \<Rightarrow> bool" where
  "clears e st \<longleftrightarrow>
     (\<exists>tok key payload x.
         st ''user_access_token'' = Some (PStr tok)
       \<and> secrets e ''SECRET_KEY'' = Some key
       \<and> jwt_decode e tok key = Inr payload
       \<and> payload ''exp'' = Some (JNum x)
       \<and> x < real_of_int (py_int (clock e)))"

text \<open>The condition of lines 100 to 102 on the truth values of the attributes.\<close>

definition wants_check :: "session_state \<Rightarrow> bool" where
  "wants_check st \<longleftrightarrow>
     flag st ''user_access_token''
     \<and> (\<not> flag st ''authenticated'' \<or> flag st ''button_pressed'')"

text \<open>The store after line 103.\<close>

definition checked :: "env \<Rightarrow> session_state \<Rightarrow> session_state" where
  "checked e st1 =
     (if wants_check st1
      then (if clears e st1 then st1(''user_access_token'' \<mapsto> PNone) else st1)
             (''authenticated'' \<mapsto> PBool (accepts e st1))
      else st1)"

text \<open>What \<^verbatim>\<open>user_message\<close> writes, on the truth values of the attributes.\<close>

definition message_table :: "session_state \<Rightarrow> ui list" where
  "message_table st =
         (if flag st ''authenticated'' \<and> flag st ''callback''
            then [Success ''Successfully Authenticated'', Balloons]
          else if flag st ''authenticated'' then []
          else if flag st ''user_access_token'' \<and> \<not> flag st ''callback''
            then [Error ''Invalid Token'']
          else if \<not> flag st ''callback'' then [Warning ''Please Authenticate'']
          else [])"

text \<open>A store holding exactly the four attributes.\<close>

definition session :: "pyval \<Rightarrow> pyval \<Rightarrow> pyval \<Rightarrow> pyval \<Rightarrow> session_state" where
  "session t a b c =
     [''user_access_token'' \<mapsto> t, ''authenticated'' \<mapsto> a,
      ''button_pressed'' \<mapsto> b, ''callback'' \<mapsto> c]"

text \<open>The store after a call \<^verbatim>\<open>update_state()\<close> without arguments.\<close>

definition settled :: "env \<Rightarrow> session_state \<Rightarrow> session_state" where
  "settled e st =
     (checked e (defaults st))
       (''button_pressed'' \<mapsto> PBool False, ''callback'' \<mapsto> PBool False)"

text \<open>
  Variants of the example deployment: a bitcoin price below every price of its curve; a
  price answer without the ethereum key; a price answer with an empty ethereum quote.
\<close>

definition demo_env_low :: env where
  "demo_env_low =
     demo_env\<lparr>price_get :=
       Inr [(''bitcoin'', [(''usd'', 30000), (''usd_24h_change'', 2.1)]),
            (''ethereum'', [(''usd'', 3000), (''usd_24h_change'', -1)])]\<rparr>"

definition demo_env_absent :: env where
  "demo_env_absent =
     demo_env\<lparr>price_get :=
       Inr [(''bitcoin'', [(''usd'', 50000), (''usd_24h_change'', 2.1)])]\<rparr>"

definition demo_env_empty :: env where
  "demo_env_empty =
     demo_env\<lparr>price_get :=
       Inr [(''bitcoin'', [(''usd'', 50000), (''usd_24h_change'', 2.1)]),
            (''ethereum'', [])]\<rparr>"

section \<open>Auxiliary facts\<close>

lemma bnd_simps: "bnd (Inl x) f = Inl x" "bnd (Inr v) f = f v"
  by (simp_all add: bnd_def)

lemma getattr_simps:
  "st k = None \<Longrightarrow> getattr st k = Inl AttributeError"
  "st k = Some v \<Longrightarrow> getattr st k = Inr v"
  by (simp_all add: getattr_def)

lemma present_defaults: "present (defaults s)"
  by (simp add: present_def defaults_def set_default_def)

lemma flag_defaults: "flag (defaults s) k = flag s k"
  by (simp add: flag_def defaults_def set_default_def split: option.splits)

lemma getattr_present:
  assumes "present st"
    and "k = ''user_access_token'' \<or> k = ''authenticated'' \<or> k = ''button_pressed'' \<or> k = ''callback''"
  shows "\<exists>v. getattr st k = Inr v \<and> truthy v = flag st k \<and> st k = Some v"
  using assms by (auto simp: present_def getattr_def flag_def)

lemma needs_check_present:
  assumes "present st"
  shows "needs_check st =
           Inr (flag st ''user_access_token''
                \<and> (\<not> flag st ''authenticated'' \<or> flag st ''button_pressed''))"
proof -
  from getattr_present [OF assms, of "''user_access_token''"]
  obtain t where t: "getattr st ''user_access_token'' = Inr t"
    "truthy t = flag st ''user_access_token''" by auto
  from getattr_present [OF assms, of "''authenticated''"]
  obtain a where a: "getattr st ''authenticated'' = Inr a"
    "truthy a = flag st ''authenticated''" by auto
  from getattr_present [OF assms, of "''button_pressed''"]
  obtain b where b: "getattr st ''button_pressed'' = Inr b"
    "truthy b = flag st ''button_pressed''" by auto
  show ?thesis
    by (simp add: needs_check_def t a b bnd_simps)
qed

lemma user_message_present:
  assumes "present st"
  shows "user_message st =
     Inr (if flag st ''authenticated'' \<and> flag st ''callback''
            then [Success ''Successfully Authenticated'', Balloons]
          else if flag st ''authenticated'' then []
          else if flag st ''user_access_token'' \<and> \<not> flag st ''callback''
            then [Error ''Invalid Token'']
          else if \<not> flag st ''callback'' then [Warning ''Please Authenticate'']
          else [])"
proof -
  from getattr_present [OF assms, of "''user_access_token''"]
  obtain t where t: "getattr st ''user_access_token'' = Inr t"
    "truthy t = flag st ''user_access_token''" by auto
  from getattr_present [OF assms, of "''authenticated''"]
  obtain a where a: "getattr st ''authenticated'' = Inr a"
    "truthy a = flag st ''authenticated''" by auto
  from getattr_present [OF assms, of "''callback''"]
  obtain c where c: "getattr st ''callback'' = Inr c"
    "truthy c = flag st ''callback''" by auto
  show ?thesis
    by (simp add: user_message_def t a c bnd_simps)
qed

lemma check_try_cases:
  "check_try e st =
     (if accepts e st then Inr (st, True)
      else if clears e st then Inr (st(''user_access_token'' \<mapsto> PNone), False)
      else Inl (projl (check_try e st)))"
proof (cases "st ''user_access_token''")
  case None
  then show ?thesis by (auto simp add: accepts_def clears_def check_try_def getattr_simps bnd_simps)
next
  case (Some v)
  note v = this
  show ?thesis
  proof (cases "secrets e ''SECRET_KEY''")
    case None
    with v show ?thesis by (auto simp add: accepts_def clears_def check_try_def getattr_simps bnd_simps)
  next
    case (Some key)
    note key = this
    show ?thesis
    proof (cases "decode_token e v key")
      case (Inl x)
      then have "\<not> (\<exists>tok payload. v = PStr tok \<and> jwt_decode e tok key = Inr payload)"
        by (cases v) auto
      with v key Inl show ?thesis
        by (auto simp add: accepts_def clears_def check_try_def getattr_simps bnd_simps)
    next
      case (Inr payload)
      then obtain tok where tok: "v = PStr tok" "jwt_decode e tok key = Inr payload"
        by (cases v) auto
      show ?thesis
      proof (cases "payload ''exp''")
        case None
        with v key Inr tok show ?thesis
          by (auto simp add: accepts_def clears_def check_try_def getattr_simps bnd_simps)
      next
        case (Some ex)
        with v key Inr tok show ?thesis
          by (cases ex) (auto simp add: accepts_def clears_def check_try_def getattr_simps bnd_simps)
      qed
    qed
  qed
qed

lemma accepts_not_clears: "accepts e st \<Longrightarrow> \<not> clears e st"
  by (auto simp: accepts_def clears_def)

lemma check_user_access_cases:
  "check_user_access e st =
     Inr (if clears e st then st(''user_access_token'' \<mapsto> PNone) else st, accepts e st)"
proof -
  consider "accepts e st" | "\<not> accepts e st" "clears e st" | "\<not> accepts e st" "\<not> clears e st"
    by blast
  then show ?thesis
  proof cases
    case 1
    then show ?thesis
      using check_try_cases [of e st] accepts_not_clears [of e st]
      by (simp add: check_user_access_def)
  next
    case 2
    then show ?thesis
      using check_try_cases [of e st] by (simp add: check_user_access_def)
  next
    case 3
    with check_try_cases [of e st]
    have "check_try e st = Inl (projl (check_try e st))" by simp
    then obtain x where "check_try e st = Inl x" ..
    with 3 show ?thesis by (simp add: check_user_access_def)
  qed
qed

lemma present_checked: "present st \<Longrightarrow> present (checked e st)"
  by (simp add: present_def checked_def)

lemma flag_checked_other:
  "flag (checked e st) ''button_pressed'' = flag st ''button_pressed''"
  "flag (checked e st) ''callback'' = flag st ''callback''"
  by (simp_all add: flag_def checked_def)

lemma update_state_eq:
  "update_state e kwargs st =
     (let st1 = defaults (st ++ kwargs); st2 = checked e st1 in
      Inr (st2(''button_pressed'' \<mapsto> PBool False, ''callback'' \<mapsto> PBool False),
           if flag st1 ''button_pressed'' then message_table st2 else [],
           if wants_check st1 then 1 else 0))"
proof -
  define st1 where "st1 = defaults (st ++ kwargs)"
  have p1: "present st1" by (simp add: st1_def present_defaults)
  have p2: "present (checked e st1)" by (rule present_checked [OF p1])
  from getattr_present [OF p2, of "''button_pressed''"]
  obtain b where b: "getattr (checked e st1) ''button_pressed'' = Inr b"
    "truthy b = flag st1 ''button_pressed''" by (auto simp: flag_checked_other)
  have m: "user_message (checked e st1) = Inr (message_table (checked e st1))"
    using user_message_present [OF p2] by (simp add: message_table_def)
  show ?thesis
  proof (cases "wants_check st1")
    case True
    have c: "checked e st1 = (if clears e st1 then st1(''user_access_token'' \<mapsto> PNone) else st1)
             (''authenticated'' \<mapsto> PBool (accepts e st1))"
      using True by (simp add: checked_def)
    from True have n: "needs_check st1 = Inr True"
      using needs_check_present [OF p1] by (simp add: wants_check_def)
    show ?thesis
      unfolding update_state_def Let_def st1_def [symmetric]
      using True b m
      by (simp add: n bnd_simps check_user_access_cases c [symmetric])
  next
    case False
    have c: "checked e st1 = st1" using False by (simp add: checked_def)
    from False have n: "needs_check st1 = Inr False"
      using needs_check_present [OF p1] by (simp add: wants_check_def)
    show ?thesis
      unfolding update_state_def Let_def st1_def [symmetric]
      using False b m
      by (simp add: n bnd_simps c)
  qed
qed

lemma defaults_id: "present st \<Longrightarrow> defaults st = st"
  by (auto simp: present_def defaults_def set_default_def)

lemma clears_defaults: "clears e (defaults s) = clears e s"
  by (cases "s ''user_access_token''") (simp_all add: clears_def defaults_def set_default_def)

lemma wants_check_defaults: "wants_check (defaults s) = wants_check s"
  by (simp add: wants_check_def flag_defaults)

lemma set_default_keeps: "s k = Some v \<Longrightarrow> set_default s k' v' k = Some v"
  by (auto simp add: set_default_def)

lemma defaults_keeps: "s k = Some v \<Longrightarrow> defaults s k = Some v"
  by (simp add: defaults_def set_default_keeps)

lemma flag_Some: "flag s k \<Longrightarrow> \<exists>v. s k = Some v"
  by (cases "s k") (simp_all add: flag_def)

lemma expired_Inr: "expired e n = Inr u \<longleftrightarrow> clock e < real_of_int n"
  by (auto simp: expired_def)

lemma jwt_decode_Inr:
  "jwt_decode e tok key = Inr payload \<longleftrightarrow>
     (\<exists>signed. jwt_parse e tok = Some (signed, hmac e key signed, payload)
        \<and> other_claims e payload = None
        \<and> (\<forall>v. payload ''exp'' = Some v \<longrightarrow> validate_exp e v = Inr ()))"
  by (auto simp: jwt_decode_def bnd_def split: option.splits prod.splits if_splits sum.splits)

lemma py_int_le: "0 \<le> c \<Longrightarrow> c < real_of_int (py_int x) \<Longrightarrow> real_of_int (py_int c) \<le> x"
proof -
  assume c: "0 \<le> c" and l: "c < real_of_int (py_int x)"
  have x: "0 \<le> x"
  proof (rule ccontr)
    assume "\<not> 0 \<le> x"
    then have "py_int x = \<lceil>x\<rceil>" "x < 0" by (simp_all add: py_int_def)
    then have "py_int x \<le> 0" by (simp add: ceiling_le_zero)
    with c l show False by linarith
  qed
  then have "real_of_int (py_int x) \<le> x" by (simp add: py_int_def)
  moreover from c have "real_of_int (py_int c) \<le> c" by (simp add: py_int_def)
  ultimately show ?thesis using l by linarith
qed

lemma clears_never:
  assumes "0 \<le> clock e"
  shows "\<not> clears e st"
proof
  assume "clears e st"
  then obtain tok key payload x where d: "jwt_decode e tok key = Inr payload"
    and x: "payload ''exp'' = Some (JNum x)" and l: "x < real_of_int (py_int (clock e))"
    unfolding clears_def by blast
  from d x have "validate_exp e (JNum x) = Inr ()" unfolding jwt_decode_Inr by blast
  then have "clock e < real_of_int (py_int x)" by (simp add: expired_Inr)
  from py_int_le [OF assms this] l show False by linarith
qed

lemma accepts_iff:
  assumes "0 \<le> clock e"
  shows "accepts e st \<longleftrightarrow>
     (\<exists>tok key signed payload x.
         st ''user_access_token'' = Some (PStr tok)
       \<and> secrets e ''SECRET_KEY'' = Some key
       \<and> jwt_parse e tok = Some (signed, hmac e key signed, payload)
       \<and> other_claims e payload = None
       \<and> payload ''exp'' = Some (JNum x)
       \<and> clock e < real_of_int \<lfloor>x\<rfloor>)"
proof
  assume "accepts e st"
  then obtain tok key payload x where t: "st ''user_access_token'' = Some (PStr tok)"
    "secrets e ''SECRET_KEY'' = Some key" and d: "jwt_decode e tok key = Inr payload"
    and x: "payload ''exp'' = Some (JNum x)"
    unfolding accepts_def by blast
  from d obtain signed where p: "jwt_parse e tok = Some (signed, hmac e key signed, payload)"
    "other_claims e payload = None"
    and v: "\<forall>v. payload ''exp'' = Some v \<longrightarrow> validate_exp e v = Inr ()"
    unfolding jwt_decode_Inr by blast
  from v x have "validate_exp e (JNum x) = Inr ()" by blast
  then have l: "clock e < real_of_int (py_int x)" by (simp add: expired_Inr)
  have "0 \<le> x"
  proof (rule ccontr)
    assume "\<not> 0 \<le> x"
    then have "py_int x = \<lceil>x\<rceil>" "x < 0" by (simp_all add: py_int_def)
    then have "py_int x \<le> 0" by (simp add: ceiling_le_zero)
    with assms l show False by linarith
  qed
  with l have "clock e < real_of_int \<lfloor>x\<rfloor>" by (simp add: py_int_def)
  with t p x show "\<exists>tok key signed payload x.
         st ''user_access_token'' = Some (PStr tok)
       \<and> secrets e ''SECRET_KEY'' = Some key
       \<and> jwt_parse e tok = Some (signed, hmac e key signed, payload)
       \<and> other_claims e payload = None
       \<and> payload ''exp'' = Some (JNum x)
       \<and> clock e < real_of_int \<lfloor>x\<rfloor>" by blast
next
  assume "\<exists>tok key signed payload x.
         st ''user_access_token'' = Some (PStr tok)
       \<and> secrets e ''SECRET_KEY'' = Some key
       \<and> jwt_parse e tok = Some (signed, hmac e key signed, payload)
       \<and> other_claims e payload = None
       \<and> payload ''exp'' = Some (JNum x)
       \<and> clock e < real_of_int \<lfloor>x\<rfloor>"
  then obtain tok key signed payload x where t: "st ''user_access_token'' = Some (PStr tok)"
    "secrets e ''SECRET_KEY'' = Some key"
    and p: "jwt_parse e tok = Some (signed, hmac e key signed, payload)"
    "other_claims e payload = None"
    and x: "payload ''exp'' = Some (JNum x)" and l: "clock e < real_of_int \<lfloor>x\<rfloor>"
    by blast
  from assms l have "0 \<le> x" by (smt (verit) floor_less_zero of_int_less_0_iff)
  with l have l': "clock e < real_of_int (py_int x)" by (simp add: py_int_def)
  then have "validate_exp e (JNum x) = Inr ()" by (simp add: expired_Inr)
  with p x have d: "jwt_decode e tok key = Inr payload" unfolding jwt_decode_Inr by auto
  from py_int_le [OF assms l'] have "real_of_int (py_int (clock e)) \<le> x" .
  with t d x show "accepts e st" unfolding accepts_def by blast
qed

lemma demo_clock: "0 \<le> clock demo_env"
  by (simp add: demo_env_def)

lemma demo_accepts: "accepts demo_env st \<longleftrightarrow> st ''user_access_token'' = Some (PStr ''good'')"
proof
  assume "accepts demo_env st"
  then show "st ''user_access_token'' = Some (PStr ''good'')"
    unfolding accepts_iff [OF demo_clock]
    by (auto simp: demo_env_def demo_secrets_def demo_parse_def split: if_splits)
next
  assume a: "st ''user_access_token'' = Some (PStr ''good'')"
  have "st ''user_access_token'' = Some (PStr ''good'')
            \<and> secrets demo_env ''SECRET_KEY'' = Some ''k''
            \<and> jwt_parse demo_env ''good'' =
                Some (''g'', hmac demo_env ''k'' ''g'', [''exp'' \<mapsto> JNum 2000])
            \<and> other_claims demo_env [''exp'' \<mapsto> JNum 2000] = None
            \<and> [''exp'' \<mapsto> JNum 2000] ''exp'' = Some (JNum 2000)
            \<and> clock demo_env < real_of_int \<lfloor>2000 :: real\<rfloor>"
    using a by (simp add: demo_env_def demo_secrets_def demo_parse_def)
  then show "accepts demo_env st" unfolding accepts_iff [OF demo_clock] by blast
qed

lemma demo_clears: "\<not> clears demo_env st"
  by (rule clears_never [OF demo_clock])

lemma bnd_Inr_iff: "bnd r f = Inr y \<longleftrightarrow> (\<exists>v. r = Inr v \<and> f v = Inr y)"
  by (cases r) (simp_all add: bnd_def)

lemma main_eq:
  "main e clicked st =
     (let s1 = (checked e (defaults st))
                 (''button_pressed'' \<mapsto> PBool False, ''callback'' \<mapsto> PBool False);
          s2 = defaults (s1(''button_pressed'' \<mapsto> PBool clicked)) in
      bnd (fetch_charts e s1 (map fst (coins e))) (\<lambda>(reqs, charts).
      bnd (price_get e) (\<lambda>api.
      bnd (render_coins api charts s1 (enumerate 0 (coins e))) (\<lambda>recs.
        Inr \<lparr>final_state = (checked e s2)
                 (''button_pressed'' \<mapsto> PBool False, ''callback'' \<mapsto> PBool False),
             messages = (if flag (defaults st) ''button_pressed''
                         then message_table (checked e (defaults st)) else [])
                        @ (if flag s2 ''button_pressed'' then message_table (checked e s2) else []),
             validations = (if wants_check (defaults st) then 1 else 0)
                           + (if wants_check s2 then 1 else 0),
             risk_requests = reqs, records = recs\<rparr>))))"
  by (simp add: main_def update_state_eq Let_def bnd_simps)

lemma session_get:
  "session t a b c ''user_access_token'' = Some t"
  "session t a b c ''authenticated'' = Some a"
  "session t a b c ''button_pressed'' = Some b"
  "session t a b c ''callback'' = Some c"
  by (simp_all add: session_def)

lemma session_upd:
  "(session t a b c)(''user_access_token'' \<mapsto> v) = session v a b c"
  "(session t a b c)(''authenticated'' \<mapsto> v) = session t v b c"
  "(session t a b c)(''button_pressed'' \<mapsto> v) = session t a v c"
  "(session t a b c)(''callback'' \<mapsto> v) = session t a b v"
  by (rule ext, simp add: session_def)+

lemma session_present: "present (session t a b c)"
  by (simp add: present_def session_get)

lemma session_defaults: "defaults (session t a b c) = session t a b c"
  by (rule defaults_id [OF session_present])

lemma session_flag:
  "flag (session t a b c) ''user_access_token'' = truthy t"
  "flag (session t a b c) ''authenticated'' = truthy a"
  "flag (session t a b c) ''button_pressed'' = truthy b"
  "flag (session t a b c) ''callback'' = truthy c"
  by (simp_all add: flag_def session_get)

lemma session_wants_check:
  "wants_check (session t a b c) \<longleftrightarrow> truthy t \<and> (\<not> truthy a \<or> truthy b)"
  by (simp add: wants_check_def session_flag)

lemma session_checked:
  "checked e (session t a b c) =
     (if truthy t \<and> (\<not> truthy a \<or> truthy b)
      then session (if clears e (session t a b c) then PNone else t)
             (PBool (accepts e (session t a b c))) b c
      else session t a b c)"
  by (auto simp add: checked_def session_wants_check session_upd)

lemma session_message_table:
  "message_table (session t a b c) =
         (if truthy a \<and> truthy c
            then [Success ''Successfully Authenticated'', Balloons]
          else if truthy a then []
          else if truthy t \<and> \<not> truthy c
            then [Error ''Invalid Token'']
          else if \<not> truthy c then [Warning ''Please Authenticate'']
          else [])"
  by (simp add: message_table_def session_flag)

lemma session_fresh:
  "defaults Map.empty = session PNone (PBool False) (PBool False) (PBool False)"
  by (rule ext) (simp add: defaults_def set_default_def session_def)

lemma session_token_only:
  "defaults [''user_access_token'' \<mapsto> t] = session t (PBool False) (PBool False) (PBool False)"
  by (rule ext) (simp add: defaults_def set_default_def session_def)

lemma session_fetch_charts:
  "fetch_charts e (session t a b c) ids = (if truthy a then Inr (get_metrics e ids) else Inr ([], []))"
  by (simp add: fetch_charts_def getattr_def session_get bnd_simps)

lemma demo_session:
  "accepts demo_env (session t a b c) \<longleftrightarrow> t = PStr ''good''"
  "\<not> clears demo_env (session t a b c)"
  by (simp_all add: demo_accepts demo_clears session_get)

lemmas session_simps = session_get session_upd session_defaults session_flag
  session_wants_check session_checked session_message_table session_fresh session_token_only
  session_fetch_charts demo_session

lemma demo_get_metrics:
  "get_metrics demo_env [''bitcoin'', ''ethereum''] =
     ([''r/bitcoin'', ''r/ethereum''], [Some [(40000, 10), (60000, 30)], None])"
  by (simp add: get_metrics_def demo_env_def demo_secrets_def get_risk_def demo_risk_def
      bnd_simps getitem_def)

lemma demo_render_plain:
  "render_coins demo_prices [] st (enumerate 0 (coins demo_env)) =
   Inr [\<lparr>asset_id = ''bitcoin'', asset_name = ''bitcoin'', usd = 50000, change_24h = 2.1,
          matched = Nothing\<rparr>,
        \<lparr>asset_id = ''ethereum'', asset_name = ''ethereum'', usd = 3000, change_24h = -1,
          matched = Nothing\<rparr>]"
  by (simp add: demo_env_def render_coin_def bnd_simps getitem_def demo_prices_def)

lemma demo_match: "match_index [(40000, 10), (60000, 30)] 50000 = Inr 0"
  by (simp add: match_index_def)

lemma demo_render_charts:
  "truthy a \<Longrightarrow>
   render_coins demo_prices [Some [(40000, 10), (60000, 30)], None] (session t a b c)
     (enumerate 0 (coins demo_env)) =
   Inr [\<lparr>asset_id = ''bitcoin'', asset_name = ''bitcoin'', usd = 50000, change_24h = 2.1,
          matched = Risk_Shown 10 [(40000, 10), (60000, 30)]\<rparr>,
        \<lparr>asset_id = ''ethereum'', asset_name = ''ethereum'', usd = 3000, change_24h = -1,
          matched = No_Chart_Data\<rparr>]"
  by (simp add: demo_env_def render_coin_def bnd_simps getitem_def demo_prices_def index_def
      getattr_def session_get demo_match)

lemma demo_coins:
  "map fst (coins demo_env) = [''bitcoin'', ''ethereum'']"
  "price_get demo_env = Inr demo_prices"
  by (simp_all add: demo_env_def)

lemma session_click:
  "defaults [''user_access_token'' \<mapsto> PStr tok,
        ''button_pressed'' \<mapsto> PBool True, ''callback'' \<mapsto> PBool True] =
     session (PStr tok) (PBool False) (PBool True) (PBool True)"
  by (rule ext) (simp add: defaults_def set_default_def session_def)

lemmas demo_main = main_eq Let_def session_simps demo_coins bnd_simps demo_render_plain
  demo_get_metrics demo_render_charts

lemma update_state_plain:
  "update_state e Map.empty st =
     Inr (settled e st,
          if flag st ''button_pressed'' then message_table (checked e (defaults st)) else [],
          if wants_check st then 1 else 0)"
  by (simp add: update_state_eq Let_def settled_def flag_defaults wants_check_defaults)

lemma main_settled:
  "main e clicked st =
      bnd (fetch_charts e (settled e st) (map fst (coins e))) (\<lambda>(reqs, charts).
      bnd (price_get e) (\<lambda>api.
      bnd (render_coins api charts (settled e st) (enumerate 0 (coins e))) (\<lambda>recs.
        Inr \<lparr>final_state = settled e ((settled e st)(''button_pressed'' \<mapsto> PBool clicked)),
             messages =
               (if flag st ''button_pressed''
                then message_table (checked e (defaults st)) else [])
               @ (if clicked
                  then message_table
                    (checked e (defaults ((settled e st)(''button_pressed'' \<mapsto> PBool clicked))))
                  else []),
             validations = (if wants_check st then 1 else 0)
               + (if wants_check ((settled e st)(''button_pressed'' \<mapsto> PBool clicked))
                  then 1 else 0),
             risk_requests = reqs, records = recs\<rparr>)))"
  by (simp add: main_def update_state_plain Let_def bnd_simps flag_def [of "_(_ \<mapsto> _)"])

lemma main_Inr:
  assumes "main e clicked st = Inr r"
  shows "\<exists>charts api.
       fetch_charts e (settled e st) (map fst (coins e)) = Inr (risk_requests r, charts)
     \<and> price_get e = Inr api
     \<and> render_coins api charts (settled e st) (enumerate 0 (coins e)) = Inr (records r)
     \<and> final_state r = settled e ((settled e st)(''button_pressed'' \<mapsto> PBool clicked))
     \<and> validations r = (if wants_check st then 1 else 0)
         + (if wants_check ((settled e st)(''button_pressed'' \<mapsto> PBool clicked))
            then 1 else 0)"
proof (cases "fetch_charts e (settled e st) (map fst (coins e))")
  case (Inl x)
  with assms show ?thesis by (simp add: main_settled bnd_simps)
next
  case (Inr rc)
  obtain reqs charts where rc: "rc = (reqs, charts)" by (cases rc)
  note f = Inr [unfolded rc]
  show ?thesis
  proof (cases "price_get e")
    case (Inl x)
    with assms f show ?thesis by (simp add: main_settled bnd_simps)
  next
    case (Inr api)
    note p = this
    show ?thesis
    proof (cases "render_coins api charts (settled e st) (enumerate 0 (coins e))")
      case (Inl x)
      with assms f p show ?thesis by (simp add: main_settled bnd_simps)
    next
      case (Inr recs)
      with assms f p show ?thesis by (auto simp add: main_settled bnd_simps)
    qed
  qed
qed

lemma present_settled: "present (settled e st)"
  using present_checked [OF present_defaults, of e st] by (simp add: settled_def present_def)

lemma settled_idle:
  assumes "flag st ''authenticated''" "\<not> flag st ''button_pressed''"
  shows "settled e st ''authenticated'' = st ''authenticated''"
    and "settled e st ''user_access_token'' = defaults st ''user_access_token''"
    and "\<not> wants_check st"
proof -
  from assms show w: "\<not> wants_check st" by (simp add: wants_check_def)
  then have c: "checked e (defaults st) = defaults st"
    by (simp add: checked_def wants_check_defaults)
  from flag_Some [OF assms(1)] obtain v where v: "st ''authenticated'' = Some v" ..
  from defaults_keeps [of st "''authenticated''" v] v c
  show "settled e st ''authenticated'' = st ''authenticated''"
    by (simp add: settled_def)
  from c show "settled e st ''user_access_token'' = defaults st ''user_access_token''"
    by (simp add: settled_def)
qed

lemma render_coin_no_charts:
  assumes "render_coin api [] st ic = Inr (Some d)"
  shows "matched d = Nothing"
proof -
  obtain i coin name where ic: "ic = (i, coin, name)" by (cases ic)
  from assms show ?thesis
    unfolding ic render_coin_def
    by (auto simp: bnd_Inr_iff Let_def split: if_splits)
qed

lemma render_coins_no_charts:
  "render_coins api [] st ics = Inr recs \<Longrightarrow> \<forall>d\<in>set recs. matched d = Nothing"
proof (induction ics arbitrary: recs)
  case Nil
  then show ?case by simp
next
  case (Cons ic ics)
  from Cons.prems obtain r rs where r: "render_coin api [] st ic = Inr r"
    and rs: "render_coins api [] st ics = Inr rs"
    and recs: "recs = (case r of None \<Rightarrow> rs | Some d \<Rightarrow> d # rs)"
    by (auto simp: bnd_Inr_iff)
  from Cons.IH [OF rs] have "\<forall>d\<in>set rs. matched d = Nothing" .
  with r recs show ?case
    by (cases r) (auto dest: render_coin_no_charts)
qed

lemma fetch_charts_unauthenticated:
  assumes "present st" "\<not> flag st ''authenticated''"
  shows "fetch_charts e st ids = Inr ([], [])"
proof -
  from getattr_present [OF assms(1), of "''authenticated''"]
  obtain a where "getattr st ''authenticated'' = Inr a" "truthy a = flag st ''authenticated''"
    by auto
  with assms(2) show ?thesis by (simp add: fetch_charts_def bnd_simps)
qed

lemma gather_all_Inr:
  "\<forall>t\<in>set ts. \<exists>v. t = Inr v \<Longrightarrow> gather ts = Inr (map projr ts)"
  by (induction ts rule: gather.induct) (auto simp: bnd_simps)

lemma gather_some_Inl:
  "\<exists>t\<in>set ts. \<exists>x. t = Inl x \<Longrightarrow> \<exists>x. gather ts = Inl x"
  by (induction ts rule: gather.induct) (auto simp: bnd_def split: sum.splits)

lemma get_risk_None: "get_risk e url = Inr None \<longleftrightarrow> risk_get e url = Body None"
  by (auto simp: get_risk_def bnd_def getitem_def split: response.splits option.splits)


lemma get_metrics_configured:
  assumes "secrets e ''TOKEN'' = Some token" and "secrets e ''URL'' = Some base_url"
  shows "fst (get_metrics e names) = map (\<lambda>name. base_url @ name) names
     \<and> (if \<exists>name\<in>set names. \<exists>x. get_risk e (base_url @ name) = Inl x
         then snd (get_metrics e names) = []
         else length (snd (get_metrics e names)) = length names
            \<and> (\<forall>i<length names.
                  get_risk e (base_url @ names ! i) = Inr (snd (get_metrics e names) ! i)
                \<and> (snd (get_metrics e names) ! i = None
                     \<longleftrightarrow> risk_get e (base_url @ names ! i) = Body None)))"
proof -
  let ?ts = "map (get_risk e) (map (\<lambda>name. base_url @ name) names)"
  have g: "snd (get_metrics e names) = (case gather ?ts of Inl x \<Rightarrow> [] | Inr charts \<Rightarrow> charts)"
    and u: "fst (get_metrics e names) = map (\<lambda>name. base_url @ name) names"
    using assms by (simp_all add: get_metrics_def Let_def)
  show ?thesis
  proof (cases "\<exists>name\<in>set names. \<exists>x. get_risk e (base_url @ name) = Inl x")
    case True
    then have "\<exists>t\<in>set ?ts. \<exists>x. t = Inl x" by auto
    from gather_some_Inl [OF this] obtain x where "gather ?ts = Inl x" ..
    with g u True show ?thesis by simp
  next
    case False
    then have "\<forall>t\<in>set ?ts. \<exists>v. t = Inr v"
      by (auto simp: image_iff) (metis sum.exhaust_sel sum.collapse(1))
    from gather_all_Inr [OF this] have r: "snd (get_metrics e names) = map projr ?ts"
      by (simp add: g)
    have "get_risk e (base_url @ names ! i) = Inr (snd (get_metrics e names) ! i)
        \<and> (snd (get_metrics e names) ! i = None
             \<longleftrightarrow> risk_get e (base_url @ names ! i) = Body None)"
      if i: "i < length names" for i
    proof -
      from i have "names ! i \<in> set names" by simp
      with False obtain v where v: "get_risk e (base_url @ names ! i) = Inr v"
        by (metis sum.exhaust_sel sum.collapse(1))
      with i have "snd (get_metrics e names) ! i = v" by (simp add: r)
      with v show ?thesis using get_risk_None [of e "base_url @ names ! i"] by auto
    qed
    with False u r show ?thesis by simp
  qed
qed



lemma match_index_Inl:
  assumes "\<forall>j<length df. price < fst (df ! j)"
  shows "match_index df price = Inl ValueError"
proof -
  have "filter (\<lambda>i. fst (df ! i) \<le> price) [0..<length df] = []"
    using assms by (auto simp: filter_empty_conv)
  then show ?thesis by (simp add: match_index_def)
qed


lemma demo_low:
  "map fst (coins demo_env_low) = [''bitcoin'', ''ethereum'']"
  "get_metrics demo_env_low [''bitcoin'', ''ethereum''] =
     ([''r/bitcoin'', ''r/ethereum''], [Some [(40000, 10), (60000, 30)], None])"
  by (simp_all add: get_metrics_def demo_env_low_def demo_env_def demo_secrets_def get_risk_def
      demo_risk_def bnd_simps getitem_def)

section \<open>Token codec: the claims\<close>






section \<open>Session state machine: the claims\<close>




text \<open>
  C8, as the code has it. \<^verbatim>\<open>update_state\<close> writes a message only when
  \<^verbatim>\<open>button_pressed\<close> is set. Then: "Successfully Authenticated" (with balloons) when the
  session is authenticated after the validation step and \<^verbatim>\<open>callback\<close> is set; nothing
  when it is authenticated and \<^verbatim>\<open>callback\<close> is not set; "Invalid Token" when it is not
  authenticated, a truthy token is still stored and \<^verbatim>\<open>callback\<close> is not set;
  "Please Authenticate" when it is not authenticated, no truthy token is stored and
  \<^verbatim>\<open>callback\<close> is not set; nothing otherwise.
\<close>

theorem update_state_message:
  "\<exists>st' msgs n. update_state e kwargs st = Inr (st', msgs, n) \<and>
     msgs =
       (if \<not> flag (st ++ kwargs) ''button_pressed'' then []
        else if flag st' ''authenticated'' \<and> flag (st ++ kwargs) ''callback''
          then [Success ''Successfully Authenticated'', Balloons]
        else if flag st' ''authenticated'' then []
        else if flag st' ''user_access_token'' \<and> \<not> flag (st ++ kwargs) ''callback''
          then [Error ''Invalid Token'']
        else if \<not> flag (st ++ kwargs) ''callback'' then [Warning ''Please Authenticate'']
        else [])"
proof -
  let ?s1 = "defaults (st ++ kwargs)"
  let ?s2 = "checked e ?s1"
  let ?s3 = "?s2(''button_pressed'' \<mapsto> PBool False, ''callback'' \<mapsto> PBool False)"
  have f: "flag ?s3 ''authenticated'' = flag ?s2 ''authenticated''"
    "flag ?s3 ''user_access_token'' = flag ?s2 ''user_access_token''"
    by (simp_all add: flag_def)
  have c: "flag ?s2 ''callback'' = flag (st ++ kwargs) ''callback''"
    by (simp add: flag_checked_other flag_defaults)
  show ?thesis
    by (simp add: update_state_eq Let_def f message_table_def c flag_defaults)
qed

text \<open>
  The click callback with an accepted token; the script run after a click with a rejected
  token in the store; the script run after a click with no token.
\<close>

theorem update_state_message_witness:
  "(\<exists>st' n. on_click demo_env ''good'' Map.empty =
       Inr (st', [Success ''Successfully Authenticated'', Balloons], n))
   \<and> (\<exists>st' n. update_state demo_env Map.empty
          (session (PStr ''bad'') (PBool False) (PBool True) (PBool False)) =
       Inr (st', [Error ''Invalid Token''], n))
   \<and> (\<exists>st' n. update_state demo_env Map.empty
          (session PNone (PBool False) (PBool True) (PBool False)) =
       Inr (st', [Warning ''Please Authenticate''], n))"
proof -
  let ?k = "[''user_access_token'' \<mapsto> PStr ''good'',
        ''button_pressed'' \<mapsto> PBool True, ''callback'' \<mapsto> PBool True]"
  let ?bad = "session (PStr ''bad'') (PBool False) (PBool True) (PBool False)"
  let ?none = "session PNone (PBool False) (PBool True) (PBool False)"
  have e1: "update_state demo_env ?k Map.empty =
      Inr (session (PStr ''good'') (PBool True) (PBool False) (PBool False),
           [Success ''Successfully Authenticated'', Balloons], 1)"
    by (simp add: update_state_eq Let_def session_click session_simps)
  have e2: "update_state demo_env Map.empty ?bad =
      Inr (session (PStr ''bad'') (PBool False) (PBool False) (PBool False),
           [Error ''Invalid Token''], 1)"
    by (simp add: update_state_eq Let_def session_simps)
  have e3: "update_state demo_env Map.empty ?none =
      Inr (session PNone (PBool False) (PBool False) (PBool False),
           [Warning ''Please Authenticate''], 0)"
    by (simp add: update_state_eq Let_def session_simps)
  from update_state_message [of demo_env ?k Map.empty] e1
    update_state_message [of demo_env Map.empty ?bad] e2
    update_state_message [of demo_env Map.empty ?none] e3
  show ?thesis by (simp add: on_click_def)
qed

text \<open>
  C8 as stated fails: the first script run of a session, with no token ever submitted and
  no button press, leaves the session unauthenticated and writes no message at all.
\<close>

theorem no_message_without_press_counterexample:
  "map_sum id (\<lambda>r. (messages r, final_state r ''authenticated'',
                     final_state r ''user_access_token''))
     (main demo_env False Map.empty)
   = Inr ([], Some (PBool False), Some PNone)"
  by (simp add: demo_main)

text \<open>
  C9. A call of \<^verbatim>\<open>update_state\<close> calls \<^verbatim>\<open>check_user_access\<close> once when a truthy token
  is stored and the session is not authenticated or \<^verbatim>\<open>button_pressed\<close> is set, and not at
  all otherwise; when \<^verbatim>\<open>authenticated\<close> is truthy and \<^verbatim>\<open>button_pressed\<close> is not, the call
  leaves \<^verbatim>\<open>authenticated\<close> as it was. So a script run without a button press, started in
  an authenticated session, validates nothing and ends authenticated, whatever the clock
  and the decoder say about the stored token.
\<close>

theorem no_revalidation_once_authenticated:
  "(\<exists>st' msgs. update_state e kwargs st =
        Inr (st', msgs, if wants_check (st ++ kwargs) then 1 else 0)
     \<and> (flag (st ++ kwargs) ''authenticated'' \<and> \<not> flag (st ++ kwargs) ''button_pressed''
          \<longrightarrow> st' ''authenticated'' = (st ++ kwargs) ''authenticated''))
   \<and> (\<forall>r. main e False st = Inr r \<and> flag st ''authenticated''
              \<and> \<not> flag st ''button_pressed''
          \<longrightarrow> validations r = 0 \<and> final_state r ''authenticated'' = st ''authenticated'')"
proof (intro conjI allI impI)
  let ?s = "st ++ kwargs"
  have "st' ''authenticated'' = ?s ''authenticated''"
    if a: "flag ?s ''authenticated''" and b: "\<not> flag ?s ''button_pressed''"
      and st': "st' = (checked e (defaults ?s))(''button_pressed'' \<mapsto> PBool False, ''callback'' \<mapsto> PBool False)"
    for st'
  proof -
    from a b have "\<not> wants_check (defaults ?s)"
      by (simp add: wants_check_def flag_defaults)
    then have "checked e (defaults ?s) = defaults ?s" by (simp add: checked_def)
    moreover from flag_Some [OF a] obtain v where v: "?s ''authenticated'' = Some v" ..
    ultimately show ?thesis
      using defaults_keeps [of ?s "''authenticated''" v] v st' by simp
  qed
  then show "\<exists>st' msgs. update_state e kwargs st =
        Inr (st', msgs, if wants_check (st ++ kwargs) then 1 else 0)
     \<and> (flag (st ++ kwargs) ''authenticated'' \<and> \<not> flag (st ++ kwargs) ''button_pressed''
          \<longrightarrow> st' ''authenticated'' = (st ++ kwargs) ''authenticated'')"
    by (simp add: update_state_eq Let_def wants_check_defaults)
next
  fix r
  assume h: "main e False st = Inr r \<and> flag st ''authenticated''
              \<and> \<not> flag st ''button_pressed''"
  then have a: "flag st ''authenticated''" and b: "\<not> flag st ''button_pressed''" by simp_all
  let ?s1 = "(settled e st)(''button_pressed'' \<mapsto> PBool False)"
  have a1: "flag ?s1 ''authenticated''" and b1: "\<not> flag ?s1 ''button_pressed''"
    using a settled_idle(1) [OF a b, of e] by (simp_all add: flag_def)
  from main_Inr [of e False st r] h
  have f: "final_state r = settled e ?s1"
    and v: "validations r = (if wants_check st then 1 else 0)
         + (if wants_check ?s1 then 1 else 0)"
    by auto
  from v settled_idle(3) [OF a b] settled_idle(3) [OF a1 b1]
  show "validations r = 0" by simp
  from f settled_idle(1) [OF a1 b1, of e] settled_idle(1) [OF a b, of e]
  show "final_state r ''authenticated'' = st ''authenticated''" by simp
qed

text \<open>
  The stored token expired at 100 and the clock is at 1000.5, so the library would reject
  it: the run validates nothing and the session stays authenticated, the token stored.
\<close>

theorem no_revalidation_once_authenticated_witness:
  "map_sum id (\<lambda>r. (validations r, final_state r ''authenticated'',
                     final_state r ''user_access_token''))
     (main demo_env False (session (PStr ''old'') (PBool True) (PBool False) (PBool False)))
   = Inr (0, Some (PBool True), Some (PStr ''old''))
   \<and> jwt_decode demo_env ''old'' ''k'' = Inl ExpiredSignatureError"
proof -
  let ?st = "session (PStr ''old'') (PBool True) (PBool False) (PBool False)"
  have "\<exists>r. main demo_env False ?st = Inr r"
    by (simp add: main_settled settled_def session_simps demo_coins bnd_simps
        demo_get_metrics demo_render_charts)
  then obtain r where r: "main demo_env False ?st = Inr r" ..
  have h: "main demo_env False ?st = Inr r \<and> flag ?st ''authenticated''
              \<and> \<not> flag ?st ''button_pressed''"
    using r by (simp add: session_simps)
  from no_revalidation_once_authenticated [of demo_env Map.empty ?st, THEN conjunct2,
      rule_format, OF h]
  have "validations r = 0" "final_state r ''authenticated'' = Some (PBool True)"
    by (simp_all add: session_simps)
  moreover from main_Inr [OF r]
  have "final_state r ''user_access_token'' = Some (PStr ''old'')"
    by (auto simp add: settled_def session_simps)
  moreover have "jwt_decode demo_env ''old'' ''k'' = Inl ExpiredSignatureError"
    by (simp add: jwt_decode_def demo_env_def demo_parse_def expired_def py_int_def bnd_simps)
  ultimately show ?thesis using r by simp
qed

section \<open>Risk data client and aggregator: the claims\<close>

text \<open>
  C5. When the session is not authenticated after the \<^verbatim>\<open>update_state()\<close> that opens
  the script run, line 118 does not call the risk client: no URL is requested and the list
  of charts is empty; and if the run completes, no panel carries a risk figure, a chart or
  the "No Chart Data" text.
\<close>

theorem unauthenticated_render:
  assumes "update_state e Map.empty st = Inr (s1, m, n)"
    and "\<not> flag s1 ''authenticated''"
  shows "fetch_charts e s1 (map fst (coins e)) = Inr ([], [])
     \<and> (\<forall>r. main e clicked st = Inr r
            \<longrightarrow> risk_requests r = [] \<and> (\<forall>d\<in>set (records r). matched d = Nothing))"
proof -
  from assms(1) have s1: "s1 = settled e st" by (simp add: update_state_plain)
  have f: "fetch_charts e s1 (map fst (coins e)) = Inr ([], [])"
    unfolding s1 using assms(2) [unfolded s1]
    by (rule fetch_charts_unauthenticated [OF present_settled])
  have "risk_requests r = [] \<and> (\<forall>d\<in>set (records r). matched d = Nothing)"
    if r: "main e clicked st = Inr r" for r
  proof -
    from main_Inr [OF r] f [unfolded s1] obtain api where
      "risk_requests r = []"
      "render_coins api [] (settled e st) (enumerate 0 (coins e)) = Inr (records r)"
      by auto
    then show ?thesis using render_coins_no_charts by blast
  qed
  with f show ?thesis by blast
qed

text \<open>
  The catalog of bitcoin and ethereum with both prices, in a fresh session: two panels,
  neither with risk data, and no request to the risk provider.
\<close>

theorem unauthenticated_render_witness:
  "map_sum id (\<lambda>r. (risk_requests r, map asset_id (records r), map matched (records r)))
     (main demo_env False Map.empty)
   = Inr ([], [''bitcoin'', ''ethereum''], [Nothing, Nothing])
   \<and> fetch_charts demo_env (session PNone (PBool False) (PBool False) (PBool False))
        (map fst (coins demo_env)) = Inr ([], [])"
proof -
  let ?s1 = "session PNone (PBool False) (PBool False) (PBool False)"
  have u: "update_state demo_env Map.empty Map.empty = Inr (?s1, [], 0)"
    by (simp add: update_state_plain settled_def session_simps flag_def wants_check_def)
  have a: "\<not> flag ?s1 ''authenticated''" by (simp add: session_simps)
  have "map_sum id (\<lambda>r. (map asset_id (records r)))
     (main demo_env False Map.empty) = Inr [''bitcoin'', ''ethereum'']"
    by (simp add: demo_main)
  then obtain r where r: "main demo_env False Map.empty = Inr r"
    and ids: "map asset_id (records r) = [''bitcoin'', ''ethereum'']"
    by (cases "main demo_env False Map.empty") auto
  from unauthenticated_render [OF u a, of False] r
  have f: "fetch_charts demo_env ?s1 (map fst (coins demo_env)) = Inr ([], [])"
    and q: "risk_requests r = []" and m: "\<forall>d\<in>set (records r). matched d = Nothing"
    by blast+
  from ids have "length (records r) = 2"
    by (metis length_map length_Cons list.size(3) One_nat_def Suc_1)
  then obtain d1 d2 where "records r = [d1, d2]"
    by (auto simp: length_Suc_conv numeral_2_eq_2)
  with m have "map matched (records r) = [Nothing, Nothing]" by simp
  with r ids q f show ?thesis by simp
qed

text \<open>
  C1, as the code has it. When the bearer token or the base URL is not configured,
  \<^verbatim>\<open>get_metrics\<close> requests nothing and returns the empty list. When both are configured
  it requests one URL per asset id, in input order, and: if no fetch raises, the returned
  list has one slot per asset id in input order, each slot being what \<^verbatim>\<open>get_risk\<close>
  returned for that asset, None exactly when the response has no \<^verbatim>\<open>data\<close> field; if any
  fetch raises, the returned list is empty.
\<close>

theorem get_metrics_slots:
  "(secrets e ''TOKEN'' = None \<or> secrets e ''URL'' = None
      \<longrightarrow> get_metrics e names = ([], []))
   \<and> (\<forall>token base_url.
        secrets e ''TOKEN'' = Some token \<and> secrets e ''URL'' = Some base_url \<longrightarrow>
        fst (get_metrics e names) = map (\<lambda>name. base_url @ name) names
        \<and> (if \<exists>name\<in>set names. \<exists>x. get_risk e (base_url @ name) = Inl x
            then snd (get_metrics e names) = []
            else length (snd (get_metrics e names)) = length names
               \<and> (\<forall>i<length names.
                     get_risk e (base_url @ names ! i) = Inr (snd (get_metrics e names) ! i)
                   \<and> (snd (get_metrics e names) ! i = None
                        \<longleftrightarrow> risk_get e (base_url @ names ! i) = Body None))))"
proof (intro conjI allI impI)
  assume "secrets e ''TOKEN'' = None \<or> secrets e ''URL'' = None"
  then show "get_metrics e names = ([], [])"
    by (auto simp: get_metrics_def split: option.splits)
next
  fix token base_url
  assume "secrets e ''TOKEN'' = Some token \<and> secrets e ''URL'' = Some base_url"
  then have s: "secrets e ''TOKEN'' = Some token" "secrets e ''URL'' = Some base_url"
    by simp_all
  from get_metrics_configured [OF s, of names]
  show "fst (get_metrics e names) = map (\<lambda>name. base_url @ name) names" ..
  from get_metrics_configured [OF s, of names]
  show "if \<exists>name\<in>set names. \<exists>x. get_risk e (base_url @ name) = Inl x
            then snd (get_metrics e names) = []
            else length (snd (get_metrics e names)) = length names
               \<and> (\<forall>i<length names.
                     get_risk e (base_url @ names ! i) = Inr (snd (get_metrics e names) ! i)
                   \<and> (snd (get_metrics e names) ! i = None
                        \<longleftrightarrow> risk_get e (base_url @ names ! i) = Body None))" ..
qed

text \<open>
  Two assets, one with a curve and one whose response has no \<^verbatim>\<open>data\<close> field.
\<close>

theorem get_metrics_slots_witness:
  "get_metrics demo_env [''bitcoin'', ''ethereum''] =
     ([''r/bitcoin'', ''r/ethereum''], [Some [(40000, 10), (60000, 30)], None])
   \<and> length (snd (get_metrics demo_env [''bitcoin'', ''ethereum''])) = 2
   \<and> get_risk demo_env ''r/ethereum'' = Inr None
   \<and> risk_get demo_env ''r/ethereum'' = Body None"
proof -
  let ?names = "[''bitcoin'', ''ethereum'']"
  have s: "secrets demo_env ''TOKEN'' = Some ''b'' \<and> secrets demo_env ''URL'' = Some ''r/''"
    by (simp_all add: demo_env_def demo_secrets_def)
  have ok: "\<not> (\<exists>name\<in>set ?names. \<exists>x. get_risk demo_env (''r/'' @ name) = Inl x)"
    by (simp add: get_risk_def demo_env_def demo_risk_def bnd_simps getitem_def)
  note t = get_metrics_slots [of demo_env ?names, THEN conjunct2, rule_format, OF s,
      THEN conjunct2, unfolded if_not_P [OF ok]]
  note l = t [THEN conjunct1] and i = t [THEN conjunct2]
  from i [rule_format, of 1]
  have "get_risk demo_env ''r/ethereum'' = Inr (snd (get_metrics demo_env ?names) ! 1)"
    by simp
  with l show ?thesis
    by (simp add: demo_get_metrics get_risk_None)
qed

text \<open>
  C1 as stated fails: with three assets of which the second one's fetch raises, the
  result is the empty list, not three slots with None in the middle.
\<close>

theorem failed_fetch_empties_batch_counterexample:
  "get_risk demo_env ''r/bitcoin'' = Inr (Some [(40000, 10), (60000, 30)])
   \<and> get_risk demo_env ''r/dogecoin'' = Inl ClientError
   \<and> get_risk demo_env ''r/ethereum'' = Inr None
   \<and> get_metrics demo_env [''bitcoin'', ''dogecoin'', ''ethereum''] =
       ([''r/bitcoin'', ''r/dogecoin'', ''r/ethereum''], [])"
  by (simp add: get_metrics_def get_risk_def demo_env_def demo_secrets_def demo_risk_def
      bnd_simps getitem_def)



text \<open>
  C4 fails on the code. An authenticated session, a bitcoin curve with the prices 40000
  and 60000 and a bitcoin quote of 30000: no row is selected, \<^verbatim>\<open>max\<close> of the empty
  list raises ValueError, and the exception leaves \<^verbatim>\<open>main\<close>: no panel is written and
  nothing shows "No Chart Data".
\<close>

theorem below_range_raises:
  "get_metrics demo_env_low (map fst (coins demo_env_low)) =
     ([''r/bitcoin'', ''r/ethereum''], [Some [(40000, 10), (60000, 30)], None])
   \<and> match_index [(40000, 10), (60000, 30)] 30000 = Inl ValueError
   \<and> main demo_env_low False
       (session (PStr ''good'') (PBool True) (PBool False) (PBool False)) = Inl ValueError"
proof -
  have m: "match_index [(40000, 10), (60000, 30)] 30000 = Inl ValueError"
    by (rule match_index_Inl) (simp add: less_Suc_eq nth_Cons')
  have p: "price_get demo_env_low =
       Inr [(''bitcoin'', [(''usd'', 30000), (''usd_24h_change'', 2.1)]),
            (''ethereum'', [(''usd'', 3000), (''usd_24h_change'', -1)])]"
    "coins demo_env_low = [(''bitcoin'', ''bitcoin''), (''ethereum'', ''ethereum'')]"
    by (simp_all add: demo_env_low_def demo_env_def)
  have "main demo_env_low False
       (session (PStr ''good'') (PBool True) (PBool False) (PBool False)) = Inl ValueError"
    by (simp add: main_settled settled_def session_simps demo_low p bnd_simps
        render_coin_def getitem_def index_def getattr_def m)
  with m show ?thesis by (simp add: demo_low)
qed

text \<open>
  C7 fails on the code for an asset whose key is missing in the price answer:
  \<^verbatim>\<open>api_data[coin]\<close> raises KeyError and the exception leaves \<^verbatim>\<open>main\<close>. An asset whose
  key is there with an empty quote is skipped, as line 126 intends.
\<close>

theorem absent_quote_raises:
  "main demo_env_absent False Map.empty = Inl KeyError
   \<and> map_sum id (\<lambda>r. map asset_id (records r)) (main demo_env_empty False Map.empty)
       = Inr [''bitcoin'']"
proof -
  have p: "price_get demo_env_absent =
       Inr [(''bitcoin'', [(''usd'', 50000), (''usd_24h_change'', 2.1)])]"
    "coins demo_env_absent = [(''bitcoin'', ''bitcoin''), (''ethereum'', ''ethereum'')]"
    "price_get demo_env_empty =
       Inr [(''bitcoin'', [(''usd'', 50000), (''usd_24h_change'', 2.1)]), (''ethereum'', [])]"
    "coins demo_env_empty = [(''bitcoin'', ''bitcoin''), (''ethereum'', ''ethereum'')]"
    by (simp_all add: demo_env_absent_def demo_env_empty_def demo_env_def)
  have 1: "main demo_env_absent False Map.empty = Inl KeyError"
    by (simp add: main_settled settled_def session_simps p bnd_simps
        render_coin_def getitem_def)
  have 2: "map_sum id (\<lambda>r. map asset_id (records r)) (main demo_env_empty False Map.empty)
       = Inr [''bitcoin'']"
    by (simp add: main_settled settled_def session_simps p bnd_simps
        render_coin_def getitem_def)
  from 1 2 show ?thesis ..
qed

end
